theory Spec2Isabelle
  imports Main "HOL-Library.Word" "HOL-Library.Monad_Syntax"
begin

unbundle bit_operations_syntax

section \<open>LunaRTOS kernel: data model\<close>

text \<open>
  The kernel of \<^verbatim>\<open>drivers/Src/kernel.c\<close> keeps all of its state in globals: the TCB
  table, the current-TCB pointer, the per-thread stacks and the millisecond prescaler,
  and it programs the SysTick timer and one exception priority. The target is a 32-bit
  Cortex-M4, so pointers, \<^verbatim>\<open>int32_t\<close> stack words and \<^verbatim>\<open>uint32_t\<close> registers are all
  32-bit words.
\<close>

type_synonym u8 = "8 word"
type_synonym u32 = "32 word"

text \<open>\<^verbatim>\<open>#define SYS_CLOCK 16000000\<close>, \<^verbatim>\<open>#define NUM_THREADS 3\<close>,
  \<^verbatim>\<open>#define MAX_STACK_SIZE 100\<close>.\<close>

definition SYS_CLOCK :: u32 where
  "SYS_CLOCK = 16000000"

definition NUM_THREADS :: nat where
  "NUM_THREADS = 3"

definition MAX_STACK_SIZE :: nat where
  "MAX_STACK_SIZE = 100"

text \<open>
  A pointer into \<^verbatim>\<open>TCB_STACK\<close> is the pair (thread, slot) it addresses, a pointer to a
  TCB is the index of that TCB in the table \<^verbatim>\<open>tcb\<close>; \<open>None\<close> is the null pointer.
\<close>

type_synonym stack_ptr = "(nat \<times> nat) option"
type_synonym tcb_ptr = "nat option"

record tcb_t =
  stackPtr :: stack_ptr
  nextStackPtr :: tcb_ptr

text \<open>The registers of the SysTick timer that the kernel writes.\<close>

record SysTick_Type =
  CTRL :: u32
  LOAD :: u32
  VAL :: u32

text \<open>
  The exceptions whose priority matters to a scheduler on this core. The priority of
  an exception is a 4-bit level on the STM32F446 (\<^verbatim>\<open>__NVIC_PRIO_BITS\<close> is 4): level 0 is
  the most urgent and level 15 the least urgent one.
\<close>

datatype IRQn_Type = SVCall_IRQn | PendSV_IRQn | SysTick_IRQn | TIM2_IRQn

record kernel_state =
  tcb :: "nat \<Rightarrow> tcb_t"
  currStackPtr :: tcb_ptr
  TCB_STACK :: "nat \<Rightarrow> nat \<Rightarrow> u32"
  MS_PRESCALER :: u32
  SysTick :: SysTick_Type
  NVIC_Priority :: "IRQn_Type \<Rightarrow> 4 word"
  PRIMASK :: bool
  PendSV_pending :: bool

text \<open>
  The state of the globals when \<^verbatim>\<open>main\<close> starts: C zero-initialises objects of static
  storage duration, and the core resets with every configurable priority at level 0,
  interrupts enabled and nothing pending.
\<close>

definition reset_state :: kernel_state where
  "reset_state =
     \<lparr>tcb = (\<lambda>_. \<lparr>stackPtr = None, nextStackPtr = None\<rparr>),
      currStackPtr = None,
      TCB_STACK = (\<lambda>_ _. 0),
      MS_PRESCALER = 0,
      SysTick = \<lparr>CTRL = 0, LOAD = 0, VAL = 0\<rparr>,
      NVIC_Priority = (\<lambda>_. 0),
      PRIMASK = False,
      PendSV_pending = False\<rparr>"

section \<open>Array accesses\<close>

text \<open>
  The arrays \<^verbatim>\<open>tcb[NUM_THREADS]\<close> and \<^verbatim>\<open>TCB_STACK[NUM_THREADS][MAX_STACK_SIZE]\<close> have fixed
  bounds. An access outside them is undefined behaviour in C; the model returns \<open>None\<close>
  there, so that no result is claimed for it.
\<close>

definition tcb_set_stackPtr :: "nat \<Rightarrow> stack_ptr \<Rightarrow> kernel_state \<Rightarrow> kernel_state option" where
  "tcb_set_stackPtr i p s =
     (if i < NUM_THREADS
      then Some (s\<lparr>tcb := (tcb s)(i := (tcb s i)\<lparr>stackPtr := p\<rparr>)\<rparr>)
      else None)"

definition tcb_set_nextStackPtr :: "nat \<Rightarrow> tcb_ptr \<Rightarrow> kernel_state \<Rightarrow> kernel_state option" where
  "tcb_set_nextStackPtr i p s =
     (if i < NUM_THREADS
      then Some (s\<lparr>tcb := (tcb s)(i := (tcb s i)\<lparr>nextStackPtr := p\<rparr>)\<rparr>)
      else None)"

definition stack_store :: "nat \<Rightarrow> nat \<Rightarrow> u32 \<Rightarrow> kernel_state \<Rightarrow> kernel_state option" where
  "stack_store i k v s =
     (if i < NUM_THREADS \<and> k < MAX_STACK_SIZE
      then Some (s\<lparr>TCB_STACK := (TCB_STACK s)(i := (TCB_STACK s i)(k := v))\<rparr>)
      else None)"

section \<open>Services of the core\<close>

text \<open>
  \<^verbatim>\<open>__disable_irq\<close> and \<^verbatim>\<open>__enable_irq\<close> set and clear PRIMASK. \<^verbatim>\<open>NVIC_SetPriority\<close>
  stores the low \<^verbatim>\<open>__NVIC_PRIO_BITS\<close> bits of its argument as the level of the exception.
\<close>

definition disable_irq :: "kernel_state \<Rightarrow> kernel_state" where
  "disable_irq s = s\<lparr>PRIMASK := True\<rparr>"

definition enable_irq :: "kernel_state \<Rightarrow> kernel_state" where
  "enable_irq s = s\<lparr>PRIMASK := False\<rparr>"

definition NVIC_SetPriority :: "IRQn_Type \<Rightarrow> u32 \<Rightarrow> kernel_state \<Rightarrow> kernel_state" where
  "NVIC_SetPriority irq priority s =
     s\<lparr>NVIC_Priority := (NVIC_Priority s)(irq := ucast priority)\<rparr>"

section \<open>The kernel functions of kernel.c\<close>

text \<open>\<^verbatim>\<open>void KernelInit(void)\<close>: \<^verbatim>\<open>MS_PRESCALER = SYS_CLOCK / 1000;\<close>\<close>

definition KernelInit :: "kernel_state \<Rightarrow> kernel_state" where
  "KernelInit s = s\<lparr>MS_PRESCALER := SYS_CLOCK div 1000\<rparr>"

text \<open>
  \<^verbatim>\<open>void KernelLaunch(void)\<close>. The macro \<^verbatim>\<open>QUANTA\<close> is not defined in kernel.c (main.c
  defines it as 10, the header passes it as the argument \<^verbatim>\<open>quanta\<close>), so it is a
  parameter here. The body is straight-line code: three register writes, the priority
  of SysTick, three read-modify-write accesses of CTRL, and then the end of the
  function, where the source has the comment \<^verbatim>\<open>TODO: Launch the Scheduler\<close>.
\<close>

definition KernelLaunch :: "u32 \<Rightarrow> kernel_state \<Rightarrow> kernel_state" where
  "KernelLaunch QUANTA s0 =
     (let s1 = s0\<lparr>SysTick := (SysTick s0)\<lparr>CTRL := 0\<rparr>\<rparr>;
          s2 = s1\<lparr>SysTick := (SysTick s1)\<lparr>VAL := 0\<rparr>\<rparr>;
          s3 = s2\<lparr>SysTick := (SysTick s2)\<lparr>LOAD := QUANTA * MS_PRESCALER s2 - 1\<rparr>\<rparr>;
          s4 = NVIC_SetPriority SysTick_IRQn 15 s3;
          s5 = s4\<lparr>SysTick := (SysTick s4)\<lparr>CTRL := CTRL (SysTick s4) OR push_bit 2 1\<rparr>\<rparr>;
          s6 = s5\<lparr>SysTick := (SysTick s5)\<lparr>CTRL := CTRL (SysTick s5) OR push_bit 0 1\<rparr>\<rparr>;
          s7 = s6\<lparr>SysTick := (SysTick s6)\<lparr>CTRL := CTRL (SysTick s6) OR push_bit 1 1\<rparr>\<rparr>
      in s7)"

text \<open>
  \<^verbatim>\<open>static void KernelStackInit(uint8_t i)\<close>: the saved stack pointer of thread \<open>i\<close>, the
  xPSR slot with bit 24, and the fourteen register slots from LR down to R4.
\<close>

definition KernelStackInit :: "u8 \<Rightarrow> kernel_state \<Rightarrow> kernel_state option" where
  "KernelStackInit i s0 = do {
     s \<leftarrow> tcb_set_stackPtr (unat i) (Some (unat i, MAX_STACK_SIZE - 16)) s0;
     s \<leftarrow> stack_store (unat i) (MAX_STACK_SIZE - 1) (push_bit 24 1) s;
     s \<leftarrow> stack_store (unat i) (MAX_STACK_SIZE - 3) 0xAAAAAAAA s;
     s \<leftarrow> stack_store (unat i) (MAX_STACK_SIZE - 4) 0xAAAAAAAA s;
     s \<leftarrow> stack_store (unat i) (MAX_STACK_SIZE - 5) 0xAAAAAAAA s;
     s \<leftarrow> stack_store (unat i) (MAX_STACK_SIZE - 6) 0xAAAAAAAA s;
     s \<leftarrow> stack_store (unat i) (MAX_STACK_SIZE - 7) 0xAAAAAAAA s;
     s \<leftarrow> stack_store (unat i) (MAX_STACK_SIZE - 8) 0xAAAAAAAA s;
     s \<leftarrow> stack_store (unat i) (MAX_STACK_SIZE - 9) 0xAAAAAAAA s;
     s \<leftarrow> stack_store (unat i) (MAX_STACK_SIZE - 10) 0xAAAAAAAA s;
     s \<leftarrow> stack_store (unat i) (MAX_STACK_SIZE - 11) 0xAAAAAAAA s;
     s \<leftarrow> stack_store (unat i) (MAX_STACK_SIZE - 12) 0xAAAAAAAA s;
     s \<leftarrow> stack_store (unat i) (MAX_STACK_SIZE - 13) 0xAAAAAAAA s;
     s \<leftarrow> stack_store (unat i) (MAX_STACK_SIZE - 14) 0xAAAAAAAA s;
     s \<leftarrow> stack_store (unat i) (MAX_STACK_SIZE - 15) 0xAAAAAAAA s;
     stack_store (unat i) (MAX_STACK_SIZE - 16) 0xAAAAAAAA s
   }"

text \<open>
  \<^verbatim>\<open>uint8_t KernelCreateThreads(void(*task0)(void), void(*task1)(void), void(*task2)(void))\<close>.
  An entry point is the 32-bit address of the task function, 0 for a null pointer; the
  cast \<^verbatim>\<open>(int32_t)(task0)\<close> keeps the 32 bits. The result is the returned status together
  with the state of the globals.
\<close>

definition KernelCreateThreads ::
    "u32 \<Rightarrow> u32 \<Rightarrow> u32 \<Rightarrow> kernel_state \<Rightarrow> (u8 \<times> kernel_state) option" where
  "KernelCreateThreads task0 task1 task2 s0 = do {
     s \<leftarrow> Some (disable_irq s0);
     s \<leftarrow> tcb_set_nextStackPtr 0 (Some 1) s;
     s \<leftarrow> tcb_set_nextStackPtr 1 (Some 2) s;
     s \<leftarrow> tcb_set_nextStackPtr 2 (Some 0) s;
     s \<leftarrow> KernelStackInit 0 s;
     s \<leftarrow> stack_store 0 (MAX_STACK_SIZE - 2) task0 s;
     s \<leftarrow> KernelStackInit 1 s;
     s \<leftarrow> stack_store 1 (MAX_STACK_SIZE - 2) task1 s;
     s \<leftarrow> KernelStackInit 2 s;
     s \<leftarrow> stack_store 2 (MAX_STACK_SIZE - 2) task2 s;
     s \<leftarrow> Some (s\<lparr>currStackPtr := Some 0\<rparr>);
     s \<leftarrow> Some (enable_irq s);
     Some (1, s)
   }"

text \<open>
  The comments of \<^verbatim>\<open>KernelStackInit\<close> name the register that each of the fourteen
  sentinel slots holds: LR, R12 and R3 to R0 in the frame that the hardware restores,
  R11 down to R4 in the frame that software restores.
\<close>

datatype gp_reg = R0 | R1 | R2 | R3 | R4 | R5 | R6 | R7 | R8 | R9 | R10 | R11 | R12 | LR

fun reg_slot :: "gp_reg \<Rightarrow> nat" where
  "reg_slot LR = MAX_STACK_SIZE - 3"
| "reg_slot R12 = MAX_STACK_SIZE - 4"
| "reg_slot R3 = MAX_STACK_SIZE - 5"
| "reg_slot R2 = MAX_STACK_SIZE - 6"
| "reg_slot R1 = MAX_STACK_SIZE - 7"
| "reg_slot R0 = MAX_STACK_SIZE - 8"
| "reg_slot R11 = MAX_STACK_SIZE - 9"
| "reg_slot R10 = MAX_STACK_SIZE - 10"
| "reg_slot R9 = MAX_STACK_SIZE - 11"
| "reg_slot R8 = MAX_STACK_SIZE - 12"
| "reg_slot R7 = MAX_STACK_SIZE - 13"
| "reg_slot R6 = MAX_STACK_SIZE - 14"
| "reg_slot R5 = MAX_STACK_SIZE - 15"
| "reg_slot R4 = MAX_STACK_SIZE - 16"

section \<open>The switch path\<close>

text \<open>
  kernel.c ends at \<^verbatim>\<open>KernelStackInit\<close>: the header declares \<^verbatim>\<open>ThreadYield\<close> and the
  tasks of main.c call it, but neither it, nor a tick handler, nor a switch handler is
  defined in the sources. The definitions of this section follow sections 3 and 4.3 to
  4.6 of the specification instead. They act on the kernel data only (TCB table,
  current-TCB pointer, pending-switch request); the register save and restore is
  represented by the stack pointer \<open>sp\<close> that it leaves behind, which the switch stores
  in the outgoing TCB.
\<close>

text \<open>Modelled from the spec: the tick handler, absent from the sources. Its one
  responsibility (section 4.4) is to pend the switch exception.\<close>

definition SysTick_Handler :: "kernel_state \<Rightarrow> kernel_state" where
  "SysTick_Handler s = s\<lparr>PendSV_pending := True\<rparr>"

text \<open>Modelled from the spec: \<^verbatim>\<open>ThreadYield\<close>, declared in kernel.h and not defined in the
  sources. It sets the pending-switch request (section 4.6).\<close>

definition ThreadYield :: "kernel_state \<Rightarrow> kernel_state" where
  "ThreadYield s = s\<lparr>PendSV_pending := True\<rparr>"

text \<open>Modelled from the spec: the context-switch engine, absent from the sources. It
  consumes the pending request, persists the stack pointer of the outgoing thread in
  its TCB, and advances the current TCB to its successor (section 4.5, steps 2 and 3;
  section 4.3). Following a null current or successor pointer, or a current pointer
  outside the table, is undefined.\<close>

definition PendSV_Handler :: "stack_ptr \<Rightarrow> kernel_state \<Rightarrow> kernel_state option" where
  "PendSV_Handler sp s =
     (case currStackPtr s of
        None \<Rightarrow> None
      | Some c \<Rightarrow>
          if c < NUM_THREADS
          then (case nextStackPtr (tcb s c) of
                  None \<Rightarrow> None
                | Some n \<Rightarrow>
                    Some (s\<lparr>tcb := (tcb s)(c := (tcb s c)\<lparr>stackPtr := sp\<rparr>),
                            currStackPtr := Some n,
                            PendSV_pending := False\<rparr>))
          else None)"

text \<open>
  What can happen once the threads exist: the timer fires, the running thread calls
  \<^verbatim>\<open>ThreadYield\<close>, or the core reaches a point where the switch exception may run; the
  last one carries the stack pointer that the register save leaves behind.
\<close>

datatype kernel_event = Ev_SysTick | Ev_ThreadYield | Ev_PendSV stack_ptr

text \<open>Modelled from the spec: the request is settable by the timer handler and by the
  yield call and consumed once by the engine (section 3), so the switch exception is
  taken only while a request is pending. The result of an event is the thread that
  enters RUNNING, if the event is a switch, and the new state.\<close>

fun step :: "kernel_event \<Rightarrow> kernel_state \<Rightarrow> (nat option \<times> kernel_state) option" where
  "step Ev_SysTick s = Some (None, SysTick_Handler s)"
| "step Ev_ThreadYield s = Some (None, ThreadYield s)"
| "step (Ev_PendSV sp) s =
     (if PendSV_pending s
      then do { s' \<leftarrow> PendSV_Handler sp s; c \<leftarrow> currStackPtr s'; Some (Some c, s') }
      else Some (None, s))"



section \<open>Sequences of kernel operations\<close>

datatype kernel_op =
    Op_KernelInit
  | Op_KernelCreateThreads u32 u32 u32
  | Op_KernelLaunch u32
  | Op_Event kernel_event

fun exec_op :: "kernel_op \<Rightarrow> kernel_state \<Rightarrow> kernel_state option" where
  "exec_op Op_KernelInit s = Some (KernelInit s)"
| "exec_op (Op_KernelCreateThreads t0 t1 t2) s =
     map_option snd (KernelCreateThreads t0 t1 t2 s)"
| "exec_op (Op_KernelLaunch q) s = Some (KernelLaunch q s)"
| "exec_op (Op_Event e) s = map_option snd (step e s)"

fun run_ops :: "kernel_op list \<Rightarrow> kernel_state \<Rightarrow> kernel_state option" where
  "run_ops [] s = Some s"
| "run_ops (x # xs) s = do { s' \<leftarrow> exec_op x s; run_ops xs s' }"

text \<open>
  Following the successor pointers \<open>n\<close> times from TCB \<open>c\<close> gives the TCBs passed on
  the way, the last one being where the walk ends; a null pointer ends it with
  \<open>None\<close>. The successor relation is a single cycle over the created threads when the
  walk of \<open>NUM_THREADS\<close> steps from TCB 0 returns to TCB 0 and has passed every thread
  exactly once before.
\<close>

fun walk :: "(nat \<Rightarrow> nat option) \<Rightarrow> nat \<Rightarrow> nat \<Rightarrow> nat list option" where
  "walk nxt 0 c = Some [c]"
| "walk nxt (Suc n) c =
     (case nxt c of None \<Rightarrow> None | Some c' \<Rightarrow> map_option ((#) c) (walk nxt n c'))"

definition single_cycle :: "kernel_state \<Rightarrow> bool" where
  "single_cycle s =
     (case walk (\<lambda>i. nextStackPtr (tcb s i)) NUM_THREADS 0 of
        None \<Rightarrow> False
      | Some xs \<Rightarrow>
          last xs = 0 \<and> distinct (butlast xs) \<and> set (butlast xs) = {0..<NUM_THREADS})"

text \<open>The links as \<^verbatim>\<open>KernelCreateThreads\<close> writes them.\<close>

definition ring_linked :: "kernel_state \<Rightarrow> bool" where
  "ring_linked s \<longleftrightarrow>
     nextStackPtr (tcb s 0) = Some 1 \<and> nextStackPtr (tcb s 1) = Some 2 \<and>
     nextStackPtr (tcb s 2) = Some 0"

section \<open>Basic facts\<close>

lemmas kernel_defs =
  KernelCreateThreads_def KernelStackInit_def tcb_set_stackPtr_def tcb_set_nextStackPtr_def
  stack_store_def disable_irq_def enable_irq_def MAX_STACK_SIZE_def NUM_THREADS_def

lemmas launch_defs = KernelLaunch_def KernelInit_def NVIC_SetPriority_def Let_def

lemma KernelCreateThreads_ring:
  "\<exists>s'. KernelCreateThreads t0 t1 t2 s = Some (1, s') \<and> ring_linked s' \<and>
        currStackPtr s' = Some 0 \<and> PendSV_pending s' = PendSV_pending s \<and>
        (\<forall>i. 3 \<le> i \<longrightarrow> nextStackPtr (tcb s' i) = nextStackPtr (tcb s i))"
  by (simp add: kernel_defs ring_linked_def)

text \<open>The stack words after creation: the xPSR slot, the entry point, the fourteen
  sentinels; every other word is as before.\<close>

lemma KernelCreateThreads_stacks:
  "\<exists>s'. KernelCreateThreads t0 t1 t2 s = Some (1, s') \<and>
     (\<forall>i k. TCB_STACK s' i k =
        (if i < 3 \<and> k = 99 then 0x01000000
         else if i < 3 \<and> k = 98 then [t0, t1, t2] ! i
         else if i < 3 \<and> k \<in> {84, 85, 86, 87, 88, 89, 90, 91, 92, 93, 94, 95, 96, 97}
           then 0xAAAAAAAA
         else TCB_STACK s i k))"
  by (simp add: kernel_defs)

lemma ring_linked_single_cycle: "ring_linked s \<Longrightarrow> single_cycle s"
  by (auto simp: ring_linked_def single_cycle_def NUM_THREADS_def numeral_3_eq_3)

lemma KernelLaunch_frame:
  "tcb (KernelLaunch q s) = tcb s"
  "currStackPtr (KernelLaunch q s) = currStackPtr s"
  "TCB_STACK (KernelLaunch q s) = TCB_STACK s"
  "PendSV_pending (KernelLaunch q s) = PendSV_pending s"
  "MS_PRESCALER (KernelLaunch q s) = MS_PRESCALER s"
  by (simp_all add: launch_defs)

lemma KernelInit_frame:
  "tcb (KernelInit s) = tcb s"
  "currStackPtr (KernelInit s) = currStackPtr s"
  by (simp_all add: KernelInit_def)

text \<open>A switch from a linked ring moves the current thread to the next index, clears
  the request and leaves every successor pointer as it was.\<close>

lemma step_switch:
  assumes "ring_linked s" "currStackPtr s = Some c" "c < 3" "PendSV_pending s"
  shows "\<exists>s'. step (Ev_PendSV sp) s = Some (Some (Suc c mod 3), s') \<and> ring_linked s' \<and>
           currStackPtr s' = Some (Suc c mod 3) \<and> \<not> PendSV_pending s' \<and>
           (\<forall>i. nextStackPtr (tcb s' i) = nextStackPtr (tcb s i))"
proof -
  from assms(3) consider "c = 0" | "c = 1" | "c = 2" by linarith
  then show ?thesis
  proof cases
    case 1 with assms show ?thesis
      by (auto simp: ring_linked_def PendSV_Handler_def NUM_THREADS_def)
  next
    case 2 with assms show ?thesis
      by (auto simp: ring_linked_def PendSV_Handler_def NUM_THREADS_def)
  next
    case 3 with assms show ?thesis
      by (auto simp: ring_linked_def PendSV_Handler_def NUM_THREADS_def)
  qed
qed

lemma step_ring:
  assumes "ring_linked s" "currStackPtr s = Some c" "c < 3"
  shows "\<exists>a s' c'. step e s = Some (a, s') \<and> ring_linked s' \<and>
           currStackPtr s' = Some c' \<and> c' < 3 \<and>
           (\<forall>i. nextStackPtr (tcb s' i) = nextStackPtr (tcb s i))"
proof (cases e)
  case Ev_SysTick
  with assms show ?thesis by (simp add: SysTick_Handler_def ring_linked_def)
next
  case Ev_ThreadYield
  with assms show ?thesis by (simp add: ThreadYield_def ring_linked_def)
next
  case (Ev_PendSV sp)
  show ?thesis
  proof (cases "PendSV_pending s")
    case True
    from step_switch [OF assms True, of sp] obtain s' where
      "step (Ev_PendSV sp) s = Some (Some (Suc c mod 3), s')" "ring_linked s'"
      "currStackPtr s' = Some (Suc c mod 3)"
      "\<forall>i. nextStackPtr (tcb s' i) = nextStackPtr (tcb s i)"
      by blast
    moreover have "Suc c mod 3 < 3" by simp
    ultimately show ?thesis unfolding Ev_PendSV by blast
  next
    case False
    with assms Ev_PendSV show ?thesis by simp
  qed
qed






text \<open>Every kernel operation keeps the ring and the successor pointers.\<close>

lemma exec_op_ring:
  assumes "ring_linked s" "currStackPtr s = Some c" "c < 3"
  shows "\<exists>s' c'. exec_op x s = Some s' \<and> ring_linked s' \<and>
           currStackPtr s' = Some c' \<and> c' < 3 \<and>
           (\<forall>i. nextStackPtr (tcb s' i) = nextStackPtr (tcb s i))"
proof (cases x)
  case Op_KernelInit
  with assms show ?thesis by (simp add: ring_linked_def KernelInit_frame)
next
  case (Op_KernelCreateThreads t0 t1 t2)
  from KernelCreateThreads_ring [of t0 t1 t2 s] obtain s' where
    s': "KernelCreateThreads t0 t1 t2 s = Some (1, s')" "ring_linked s'"
      "currStackPtr s' = Some 0"
      "\<And>i. 3 \<le> i \<Longrightarrow> nextStackPtr (tcb s' i) = nextStackPtr (tcb s i)"
    by blast
  have "nextStackPtr (tcb s' i) = nextStackPtr (tcb s i)" for i
  proof (cases "3 \<le> i")
    case True
    then show ?thesis by (rule s'(4))
  next
    case False
    then consider "i = 0" | "i = 1" | "i = 2" by linarith
    then show ?thesis using assms(1) s'(2) by cases (simp_all add: ring_linked_def)
  qed
  with s' Op_KernelCreateThreads show ?thesis by simp
next
  case (Op_KernelLaunch q)
  with assms show ?thesis by (simp add: ring_linked_def KernelLaunch_frame)
next
  case (Op_Event e)
  from step_ring [OF assms, of e] Op_Event show ?thesis by auto
qed

lemma run_ops_ring:
  assumes "ring_linked s" "currStackPtr s = Some c" "c < 3"
  shows "\<exists>s'. run_ops ops s = Some s' \<and> ring_linked s' \<and>
           (\<forall>i. nextStackPtr (tcb s' i) = nextStackPtr (tcb s i))"
  using assms
proof (induction ops arbitrary: s c)
  case Nil
  then show ?case by simp
next
  case (Cons x xs)
  from exec_op_ring [OF Cons.prems, of x] obtain s1 c1 where
    s1: "exec_op x s = Some s1" "ring_linked s1" "currStackPtr s1 = Some c1" "c1 < 3"
      "\<And>i. nextStackPtr (tcb s1 i) = nextStackPtr (tcb s i)"
    by blast
  from Cons.IH [OF s1(2,3,4)] obtain s2 where
    "run_ops xs s1 = Some s2" "ring_linked s2"
    "\<And>i. nextStackPtr (tcb s2 i) = nextStackPtr (tcb s1 i)"
    by blast
  with s1 show ?case by simp
qed

text \<open>The reload value read as a natural number, as long as the product fits.\<close>

lemma reload_nat:
  assumes "0 < unat Q" "unat Q * 16000 < 2 ^ 32"
  shows "unat (Q * 16000 - 1 :: u32) = unat Q * 16000 - 1"
proof -
  have m: "unat (Q * 16000) = unat Q * 16000"
    using assms(2) by (simp add: unat_mult_lem [THEN iffD1])
  with assms(1) have "unat (Q * 16000) \<noteq> 0" by simp
  then have "Q * 16000 \<noteq> 0" by auto
  then show ?thesis using m by (simp add: unat_minus_one)
qed

section \<open>Stack frames\<close>

text \<open>
  Claim C2. After \<^verbatim>\<open>KernelCreateThreads\<close>, for every thread \<open>i\<close> below \<open>NUM_THREADS\<close>
  and stack capacity \<open>C = MAX_STACK_SIZE = 100\<close>: the saved stack pointer in TCB \<open>i\<close> is
  the address of slot \<open>C - 16\<close> of stack \<open>i\<close>, slot \<open>C - 2\<close> holds the entry point given
  for thread \<open>i\<close>, and bit 24 (the Thumb bit) of slot \<open>C - 1\<close> is set.
\<close>

theorem KernelCreateThreads_frame_layout:
  assumes "i < NUM_THREADS"
  shows "\<exists>st s'. KernelCreateThreads t0 t1 t2 s = Some (st, s') \<and>
           stackPtr (tcb s' i) = Some (i, MAX_STACK_SIZE - 16) \<and>
           TCB_STACK s' i (MAX_STACK_SIZE - 2) = [t0, t1, t2] ! i \<and>
           bit (TCB_STACK s' i (MAX_STACK_SIZE - 1)) 24"
proof -
  from assms consider "i = 0" | "i = 1" | "i = 2"
    unfolding NUM_THREADS_def by linarith
  then show ?thesis
    by cases (simp_all add: kernel_defs bit_iff_odd)
qed

theorem KernelCreateThreads_frame_layout_witness:
  "(1::nat) < NUM_THREADS \<and>
   (\<exists>st s'. KernelCreateThreads 0x08000401 0x08000501 0x08000601 reset_state = Some (st, s') \<and>
      stackPtr (tcb s' 1) = Some (1, 84) \<and> TCB_STACK s' 1 98 = 0x08000501 \<and>
      bit (TCB_STACK s' 1 99) 24)"
  using KernelCreateThreads_frame_layout
    [of 1 "0x08000401" "0x08000501" "0x08000601" reset_state]
  by (simp add: NUM_THREADS_def MAX_STACK_SIZE_def)

text \<open>
  Claim C8. For every thread \<open>i\<close>, \<^verbatim>\<open>KernelStackInit\<close> writes the one sentinel
  \<^verbatim>\<open>0xAAAAAAAA\<close>, which is not zero, into the slot of every general-purpose register
  of the initial frame: R0 to R3, R12 and LR of the hardware-restored part and R4 to
  R11 of the software-restored part. The sentinels are still there when
  \<^verbatim>\<open>KernelCreateThreads\<close> has finished.
\<close>

theorem register_slots_sentinel:
  assumes "unat i < NUM_THREADS"
  shows "(\<exists>s'. KernelStackInit i s = Some s' \<and>
            TCB_STACK s' (unat i) (reg_slot r) = 0xAAAAAAAA) \<and>
         (\<exists>st s'. KernelCreateThreads t0 t1 t2 s = Some (st, s') \<and>
            TCB_STACK s' (unat i) (reg_slot r) = 0xAAAAAAAA) \<and>
         (0xAAAAAAAA :: u32) \<noteq> 0"
proof (intro conjI)
  show "\<exists>s'. KernelStackInit i s = Some s' \<and>
          TCB_STACK s' (unat i) (reg_slot r) = 0xAAAAAAAA"
    using assms
    by (cases r)
       (simp_all add: KernelStackInit_def tcb_set_stackPtr_def stack_store_def
          MAX_STACK_SIZE_def)
  from KernelCreateThreads_stacks [of t0 t1 t2 s] obtain s' where
    s': "KernelCreateThreads t0 t1 t2 s = Some (1, s')"
    and st: "\<And>i k. TCB_STACK s' i k =
        (if i < 3 \<and> k = 99 then 0x01000000
         else if i < 3 \<and> k = 98 then [t0, t1, t2] ! i
         else if i < 3 \<and> k \<in> {84, 85, 86, 87, 88, 89, 90, 91, 92, 93, 94, 95, 96, 97}
           then 0xAAAAAAAA
         else TCB_STACK s i k)"
    by blast
  have "reg_slot r \<in> {84, 85, 86, 87, 88, 89, 90, 91, 92, 93, 94, 95, 96, 97}"
    by (cases r) (simp_all add: MAX_STACK_SIZE_def)
  with assms have "TCB_STACK s' (unat i) (reg_slot r) = 0xAAAAAAAA"
    unfolding st NUM_THREADS_def by auto
  with s' show "\<exists>st s'. KernelCreateThreads t0 t1 t2 s = Some (st, s') \<and>
            TCB_STACK s' (unat i) (reg_slot r) = 0xAAAAAAAA"
    by blast
  show "(0xAAAAAAAA :: u32) \<noteq> 0" by simp
qed

theorem register_slots_sentinel_witness:
  "unat (2 :: u8) < NUM_THREADS \<and>
   (\<exists>s'. KernelStackInit 2 reset_state = Some s' \<and> TCB_STACK s' 2 87 = 0xAAAAAAAA) \<and>
   (\<exists>st s'. KernelCreateThreads 0x08000401 0x08000501 0x08000601 reset_state = Some (st, s') \<and>
      TCB_STACK s' 2 87 = 0xAAAAAAAA)"
  using register_slots_sentinel
    [of 2 reset_state R7 "0x08000401" "0x08000501" "0x08000601"]
  by (simp add: NUM_THREADS_def MAX_STACK_SIZE_def)

section \<open>Timer reload\<close>

text \<open>
  Claim C3. With the clock rate \<open>F = SYS_CLOCK\<close> and the quantum \<open>Q\<close>,
  \<^verbatim>\<open>KernelInit\<close> followed by \<^verbatim>\<open>KernelLaunch\<close> (with or without the thread creation in
  between) leaves \<open>Q * (F / 1000) - 1\<close> in the reload register of SysTick, computed in
  32-bit arithmetic; this is the number \<open>Q * (F / 1000) - 1\<close> itself whenever \<open>Q\<close> is
  positive and the product fits in 32 bits. For \<open>F = 16000000\<close> and \<open>Q = 10\<close> the
  register holds 159999.
\<close>

theorem KernelLaunch_reload:
  "LOAD (SysTick (KernelLaunch Q (KernelInit s))) = Q * (SYS_CLOCK div 1000) - 1 \<and>
   (\<exists>st s1. KernelCreateThreads t0 t1 t2 (KernelInit s) = Some (st, s1) \<and>
      LOAD (SysTick (KernelLaunch Q s1)) = Q * (SYS_CLOCK div 1000) - 1) \<and>
   (0 < unat Q \<and> unat Q * (unat SYS_CLOCK div 1000) < 2 ^ 32 \<longrightarrow>
      unat (LOAD (SysTick (KernelLaunch Q (KernelInit s)))) =
        unat Q * (unat SYS_CLOCK div 1000) - 1) \<and>
   (SYS_CLOCK = 16000000 \<and> LOAD (SysTick (KernelLaunch 10 (KernelInit s))) = 159999)"
proof (intro conjI impI)
  show "LOAD (SysTick (KernelLaunch Q (KernelInit s))) = Q * (SYS_CLOCK div 1000) - 1"
    by (simp add: launch_defs)
  show "\<exists>st s1. KernelCreateThreads t0 t1 t2 (KernelInit s) = Some (st, s1) \<and>
      LOAD (SysTick (KernelLaunch Q s1)) = Q * (SYS_CLOCK div 1000) - 1"
    by (simp add: kernel_defs launch_defs)
  show "SYS_CLOCK = 16000000" by (simp add: SYS_CLOCK_def)
  show "LOAD (SysTick (KernelLaunch 10 (KernelInit s))) = 159999"
    by (simp add: launch_defs SYS_CLOCK_def)
next
  assume "0 < unat Q \<and> unat Q * (unat SYS_CLOCK div 1000) < 2 ^ 32"
  then have "unat (Q * 16000 - 1 :: u32) = unat Q * 16000 - 1"
    by (intro reload_nat) (simp_all add: SYS_CLOCK_def)
  then show "unat (LOAD (SysTick (KernelLaunch Q (KernelInit s)))) =
      unat Q * (unat SYS_CLOCK div 1000) - 1"
    by (simp add: launch_defs SYS_CLOCK_def)
qed

theorem KernelLaunch_reload_witness:
  "0 < unat (10 :: u32) \<and> unat (10 :: u32) * (unat SYS_CLOCK div 1000) < 2 ^ 32 \<and>
   unat (LOAD (SysTick (KernelLaunch 10 (KernelInit reset_state)))) = 159999"
  using KernelLaunch_reload [of 10 reset_state 0 0 0]
  by (simp add: SYS_CLOCK_def)

section \<open>Thread creation\<close>

text \<open>
  Claim C9. When \<^verbatim>\<open>KernelCreateThreads\<close> has returned, the current-TCB pointer is the
  address of TCB 0, and it still is after \<^verbatim>\<open>KernelLaunch\<close>.
\<close>

theorem KernelCreateThreads_current_first:
  "\<exists>st s'. KernelCreateThreads t0 t1 t2 s = Some (st, s') \<and>
     currStackPtr s' = Some 0 \<and> currStackPtr (KernelLaunch Q s') = Some 0"
  by (simp add: kernel_defs launch_defs)

text \<open>
  Claim C10. \<^verbatim>\<open>KernelCreateThreads\<close> returns the status 1 whatever the three entry
  points are, null pointers included; the header documents 0 as success and a non-zero
  value as failure, and 1 is not 0.
\<close>

theorem KernelCreateThreads_status_constant:
  "map_option fst (KernelCreateThreads t0 t1 t2 s) = Some 1 \<and>
   map_option fst (KernelCreateThreads 0 0 0 s) = Some 1 \<and> (1 :: u8) \<noteq> 0"
  by (simp add: kernel_defs)

section \<open>Round robin\<close>


text \<open>
  Claim C5. When \<^verbatim>\<open>KernelCreateThreads\<close> has completed, the successor pointers form a
  single cycle that passes every created thread exactly once; and after any sequence
  of kernel operations from there (\<^verbatim>\<open>KernelInit\<close>, \<^verbatim>\<open>KernelLaunch\<close>, a further
  \<^verbatim>\<open>KernelCreateThreads\<close>, timer and yield switches) every successor pointer has the
  value it had after creation, so the cycle is still there.
\<close>

theorem successor_links_single_cycle:
  "\<exists>st s1. KernelCreateThreads t0 t1 t2 s0 = Some (st, s1) \<and> single_cycle s1 \<and>
     (\<forall>ops. \<exists>s2. run_ops ops s1 = Some s2 \<and> single_cycle s2 \<and>
        (\<forall>i. nextStackPtr (tcb s2 i) = nextStackPtr (tcb s1 i)))"
proof -
  from KernelCreateThreads_ring [of t0 t1 t2 s0] obtain s1 where
    s1: "KernelCreateThreads t0 t1 t2 s0 = Some (1, s1)" "ring_linked s1"
      "currStackPtr s1 = Some 0"
    by blast
  have "\<exists>s2. run_ops ops s1 = Some s2 \<and> single_cycle s2 \<and>
        (\<forall>i. nextStackPtr (tcb s2 i) = nextStackPtr (tcb s1 i))" for ops
    using run_ops_ring [OF s1(2,3), of ops] ring_linked_single_cycle by auto
  with s1(1) ring_linked_single_cycle [OF s1(2)] show ?thesis by blast
qed

section \<open>Creation with a null entry point\<close>

text \<open>
  Claim C4, as the code has it. \<^verbatim>\<open>KernelCreateThreads\<close> takes exactly three entry
  points, so the thread count cannot exceed \<open>NUM_THREADS\<close>, and it checks none of them.
  Called with a null entry point it returns the non-zero status 1, and it has linked
  the three TCBs, stored each entry point (the null one too) in the PC slot of its
  thread and made TCB 0 the current one.
\<close>

theorem KernelCreateThreads_null_entry_installed:
  assumes "t0 = 0 \<or> t1 = 0 \<or> t2 = 0"
  shows "\<exists>s'. KernelCreateThreads t0 t1 t2 s = Some (1, s') \<and>
           currStackPtr s' = Some 0 \<and>
           nextStackPtr (tcb s' 0) = Some 1 \<and> nextStackPtr (tcb s' 1) = Some 2 \<and>
           nextStackPtr (tcb s' 2) = Some 0 \<and>
           TCB_STACK s' 0 (MAX_STACK_SIZE - 2) = t0 \<and>
           TCB_STACK s' 1 (MAX_STACK_SIZE - 2) = t1 \<and>
           TCB_STACK s' 2 (MAX_STACK_SIZE - 2) = t2"
  by (simp add: kernel_defs)

theorem KernelCreateThreads_null_entry_installed_witness:
  "((0x08000401 :: u32) = 0 \<or> (0 :: u32) = 0 \<or> (0x08000601 :: u32) = 0) \<and>
   (\<exists>s'. KernelCreateThreads 0x08000401 0 0x08000601 reset_state = Some (1, s') \<and>
      currStackPtr s' = Some 0 \<and>
      nextStackPtr (tcb s' 0) = Some 1 \<and> nextStackPtr (tcb s' 1) = Some 2 \<and>
      nextStackPtr (tcb s' 2) = Some 0 \<and>
      TCB_STACK s' 0 98 = 0x08000401 \<and> TCB_STACK s' 1 98 = 0 \<and>
      TCB_STACK s' 2 98 = 0x08000601)"
  using KernelCreateThreads_null_entry_installed [of "0x08000401" 0 "0x08000601" reset_state]
  by (simp add: MAX_STACK_SIZE_def)

text \<open>
  The state is therefore not left unchanged by a call with a null entry point: from
  the reset state, with a null second entry point, no non-zero status comes back
  together with the current pointer, TCB table and stacks as they were.
\<close>

theorem KernelCreateThreads_null_entry_counterexample:
  "\<not> (\<exists>st s'. KernelCreateThreads 0x08000401 0 0x08000601 reset_state = Some (st, s') \<and>
         st \<noteq> 0 \<and> currStackPtr s' = currStackPtr reset_state \<and>
         tcb s' = tcb reset_state \<and> TCB_STACK s' = TCB_STACK reset_state)"
proof
  assume "\<exists>st s'. KernelCreateThreads 0x08000401 0 0x08000601 reset_state = Some (st, s') \<and>
         st \<noteq> 0 \<and> currStackPtr s' = currStackPtr reset_state \<and>
         tcb s' = tcb reset_state \<and> TCB_STACK s' = TCB_STACK reset_state"
  then obtain st s' where
    a: "KernelCreateThreads 0x08000401 0 0x08000601 reset_state = Some (st, s')"
    and b: "currStackPtr s' = currStackPtr reset_state"
    by blast
  from KernelCreateThreads_ring [of "0x08000401" 0 "0x08000601" reset_state] a
  have "currStackPtr s' = Some 0" by auto
  with b show False by (simp add: reset_state_def)
qed

section \<open>Launch\<close>

text \<open>
  Claim C6, as the code has it. \<^verbatim>\<open>KernelLaunch\<close> sets the priority of the tick
  handler (SysTick) itself to level 15, the least urgent level there is, and writes no
  other priority: the level of every other exception, a switch exception included, is
  what it was before, and none is less urgent than the tick handler's.
\<close>

theorem KernelLaunch_tick_lowest_priority:
  "NVIC_Priority (KernelLaunch Q s) = (NVIC_Priority s)(SysTick_IRQn := 15) \<and>
   (\<forall>irq. NVIC_Priority (KernelLaunch Q s) irq
            \<le> NVIC_Priority (KernelLaunch Q s) SysTick_IRQn)"
proof -
  have "(15 :: 4 word) = - 1" by simp
  then have "x \<le> (15 :: 4 word)" for x by (simp only: word_n1_ge)
  then show ?thesis by (simp add: launch_defs)
qed

text \<open>
  So the tick handler is not above the switch exception: launched from the reset
  state, SysTick is at level 15 and PendSV still at its reset level 0, which is the
  more urgent of the two and not the lowest level.
\<close>

theorem KernelLaunch_priority_counterexample:
  "\<not> (NVIC_Priority (KernelLaunch 10 (KernelInit reset_state)) SysTick_IRQn
        < NVIC_Priority (KernelLaunch 10 (KernelInit reset_state)) PendSV_IRQn) \<and>
   NVIC_Priority (KernelLaunch 10 (KernelInit reset_state)) PendSV_IRQn \<noteq> 15"
  by (simp add: launch_defs reset_state_def)

text \<open>
  Claim C7. \<^verbatim>\<open>KernelLaunch\<close> is documented not to return. Its body is straight-line
  code that ends after enabling the SysTick interrupt: what it returns to its caller is
  the state it was given with the three SysTick registers and the SysTick priority
  written, and nothing else; the current-TCB pointer, the TCBs and the stacks are not
  read, so no thread is started. The second part evaluates the calls of \<^verbatim>\<open>main\<close>:
  initialisation, creation of three threads, launch with a quantum of 10.
\<close>

theorem KernelLaunch_returns:
  "KernelLaunch Q s =
     s\<lparr>SysTick := \<lparr>CTRL = 7, LOAD = Q * MS_PRESCALER s - 1, VAL = 0\<rparr>,
       NVIC_Priority := (NVIC_Priority s)(SysTick_IRQn := 15)\<rparr> \<and>
   (\<exists>st s1. KernelCreateThreads 0x08000401 0x08000501 0x08000601 (KernelInit reset_state)
        = Some (st, s1) \<and>
      KernelLaunch 10 s1 =
        s1\<lparr>SysTick := \<lparr>CTRL = 7, LOAD = 159999, VAL = 0\<rparr>,
           NVIC_Priority := (NVIC_Priority s1)(SysTick_IRQn := 15)\<rparr>)"
  by (simp add: kernel_defs launch_defs SYS_CLOCK_def reset_state_def)

end
